theory Spec2Isabelle
  imports Complex_Main
begin

section \<open>Python values and errors\<close>

text \<open>
  The widget is written in Python over PyQt5.  Python ints are \<^typ>\<open>int\<close>.  Python
  floats are modelled as \<^typ>\<open>real\<close>: comparisons are those of the program, while
  sums, products and quotients are exact here and rounded to doubles there.  The
  theorems below are about comparisons, stored fields, raised errors and the order of
  painter calls; none of them is about the value a double computation returns.

  Exceptions are values: \<open>ValueError\<close>, \<open>ZeroDivisionError\<close>, \<open>OverflowError\<close> and
  \<open>RuntimeError\<close> derive from \<open>Exception\<close>; \<open>KeyboardInterrupt\<close> and \<open>SystemExit\<close>
  derive from \<open>BaseException\<close> only, so \<open>except Exception\<close> does not catch them.
\<close>

datatype py_error =
    ValueError string
  | ZeroDivisionError
  | OverflowError
  | RuntimeError string
  | KeyboardInterrupt
  | SystemExit

fun is_Exception :: "py_error \<Rightarrow> bool" where
  "is_Exception (ValueError _) = True"
| "is_Exception ZeroDivisionError = True"
| "is_Exception OverflowError = True"
| "is_Exception (RuntimeError _) = True"
| "is_Exception KeyboardInterrupt = False"
| "is_Exception SystemExit = False"

definition py_truediv :: "real \<Rightarrow> real \<Rightarrow> py_error + real" where
  \<comment> \<open>Python's \<open>a / b\<close>: raises on a zero divisor.\<close>
  "py_truediv a b = (if b = 0 then Inl ZeroDivisionError else Inr (a / b))"

definition py_range :: "int \<Rightarrow> int list" where
  \<comment> \<open>\<open>range(n)\<close>: \<open>0, ..., n - 1\<close>, empty when \<open>n \<le> 0\<close>.\<close>
  "py_range n = map int [0..<nat n]"

definition radians :: "real \<Rightarrow> real" where
  \<comment> \<open>\<open>math.radians\<close>\<close>
  "radians d = d * (pi / 180)"

subsection \<open>Formatting with \<open>.0f\<close>\<close>

definition py_round :: "real \<Rightarrow> int" where
  \<comment> \<open>rounding to the nearest integer, ties to the even one\<close>
  "py_round x =
     (let f = \<lfloor>x\<rfloor>; d = x - of_int f
      in if d < 1 / 2 then f
         else if 1 / 2 < d then f + 1
         else if even f then f else f + 1)"

fun digits :: "nat \<Rightarrow> string" where
  "digits n =
     (if n < 10 then [''0123456789'' ! n]
      else digits (n div 10) @ [''0123456789'' ! (n mod 10)])"

definition format_0f :: "real \<Rightarrow> string" where
  \<comment> \<open>\<open>f"{val:.0f}"\<close>: the sign of the number, then its magnitude rounded to
      an integer (ties to even), in decimal.  A negative number that rounds
      to zero is shown as \<open>-0\<close>.\<close>
  "format_0f x = (if x < 0 then ''-'' else '''') @ digits (nat \<bar>py_round x\<bar>)"

section \<open>Toolkit values\<close>

datatype global_color = GlobalColor nat

definition Qt_black :: global_color where "Qt_black = GlobalColor 2"
definition Qt_white :: global_color where "Qt_white = GlobalColor 3"
definition Qt_red :: global_color where "Qt_red = GlobalColor 7"

datatype qcolor =
    QColor_rgba nat nat nat nat
  | QColor_global global_color
  | QColor_name string

definition QColor_rgb :: "nat \<Rightarrow> nat \<Rightarrow> nat \<Rightarrow> qcolor" where
  "QColor_rgb r g b = QColor_rgba r g b 255"

text \<open>A colour argument of the constructor: \<open>Union[QColor, Qt.GlobalColor, str]\<close>.\<close>

datatype color_arg = ArgQColor qcolor | ArgGlobal global_color | ArgName string

fun get_color :: "color_arg \<Rightarrow> qcolor" where
  "get_color (ArgQColor c) = c"
| "get_color (ArgGlobal c) = QColor_global c"
| "get_color (ArgName s) = QColor_name s"

fun truthy :: "color_arg option \<Rightarrow> bool" where
  \<comment> \<open>Python truth value of an optional colour argument\<close>
  "truthy None = False"
| "truthy (Some (ArgQColor c)) = True"
| "truthy (Some (ArgGlobal (GlobalColor n))) = (n \<noteq> 0)"
| "truthy (Some (ArgName s)) = (s \<noteq> [])"

definition get_color_opt :: "color_arg option \<Rightarrow> qcolor option" where
  \<comment> \<open>\<open>self._get_color(c) if c else None\<close>\<close>
  "get_color_opt a = (if truthy a then Some (get_color (the a)) else None)"

datatype qpen = QPen qcolor real | NoPen
datatype qbrush = QBrush qcolor | NoBrush
datatype qrectf = QRectF real real real real
datatype qrect = QRect int int int int

fun width :: "qrect \<Rightarrow> int" where "width (QRect x y w h) = w"
fun height :: "qrect \<Rightarrow> int" where "height (QRect x y w h) = h"

definition half_trunc :: "int \<Rightarrow> int" where
  \<comment> \<open>integer division by two, truncating towards zero\<close>
  "half_trunc a = (if a < 0 then - ((- a) div 2) else a div 2)"

fun center :: "qrect \<Rightarrow> int \<times> int" where
  "center (QRect x y w h) = (half_trunc (x + (x + w - 1)), half_trunc (y + (y + h - 1)))"

datatype path_step =
    ArcMoveTo qrectf real
  | ArcTo qrectf real real
  | AddEllipse "real \<times> real" real real

datatype qpainterpath = Path "path_step list" | Subtracted qpainterpath qpainterpath

text \<open>One call on the painter.  A render is the sequence of these calls.\<close>

datatype painter_op =
    SetRenderHint_Antialiasing
  | Translate real real
  | Rotate real
  | Save
  | Restore
  | SetPen qpen
  | SetBrush qbrush
  | SetFont string int
  | DrawPath qpainterpath
  | DrawLine "real \<times> real" "real \<times> real"
  | DrawText_AlignCenter qrectf string
  | DrawPolygon "(real \<times> real) list"
  | DrawEllipse "real \<times> real" real real

section \<open>The gauge\<close>

record gauge =
  min_value :: real
  max_value :: real
  "value" :: real
  steps :: int
  start_angle :: real
  end_angle :: real
  angle_range :: real
  outer_circle_thickness :: int
  outer_circle_pen_color :: qcolor
  outer_circle_brush_color :: "qcolor option"
  inner_ring_pen_color :: qcolor
  inner_ring_brush_color :: "qcolor option"
  inner_circle_brush_color :: "qcolor option"
  number_font_size :: int
  number_font_family :: string
  minimum_size :: "int \<times> int"  \<comment> \<open>toolkit state set by \<open>setMinimumSize\<close>\<close>
  update_requests :: nat  \<comment> \<open>toolkit state: number of \<open>update()\<close> calls\<close>

record init_args =
  arg_min_value :: real
  arg_max_value :: real
  arg_value :: real
  arg_steps :: int
  arg_start_angle :: real
  arg_end_angle :: real
  arg_outer_circle_pen_color :: color_arg
  arg_outer_circle_brush_color :: "color_arg option"
  arg_outer_circle_thickness :: int
  arg_inner_ring_pen_color :: color_arg
  arg_inner_ring_brush_color :: "color_arg option"
  arg_inner_circle_brush_color :: "color_arg option"
  arg_number_font_size :: int
  arg_number_font_family :: string

definition default_args :: init_args where
  "default_args =
     \<lparr> arg_min_value = 0, arg_max_value = 100, arg_value = 50, arg_steps = 10,
       arg_start_angle = - 210, arg_end_angle = 30,
       arg_outer_circle_pen_color = ArgGlobal Qt_black,
       arg_outer_circle_brush_color = None,
       arg_outer_circle_thickness = 12,
       arg_inner_ring_pen_color = ArgGlobal Qt_black,
       arg_inner_ring_brush_color = Some (ArgGlobal Qt_white),
       arg_inner_circle_brush_color = None,
       arg_number_font_size = 10,
       arg_number_font_family = ''Arial'' \<rparr>"

definition CircularGauge_init :: "init_args \<Rightarrow> py_error + gauge" where
  "CircularGauge_init a =
     (if arg_min_value a \<ge> arg_max_value a
      then Inl (ValueError ''min_value must be less than max_value'')
      else Inr
        \<lparr> min_value = arg_min_value a,
          max_value = arg_max_value a,
          value = arg_value a,
          steps = arg_steps a,
          start_angle = arg_start_angle a,
          end_angle = arg_end_angle a,
          angle_range = arg_end_angle a - arg_start_angle a,
          outer_circle_thickness = arg_outer_circle_thickness a,
          outer_circle_pen_color = get_color (arg_outer_circle_pen_color a),
          outer_circle_brush_color = get_color_opt (arg_outer_circle_brush_color a),
          inner_ring_pen_color = get_color (arg_inner_ring_pen_color a),
          inner_ring_brush_color = get_color_opt (arg_inner_ring_brush_color a),
          inner_circle_brush_color = get_color_opt (arg_inner_circle_brush_color a),
          number_font_size = arg_number_font_size a,
          number_font_family = arg_number_font_family a,
          minimum_size = (200, 200),
          update_requests = 0 \<rparr>)"

definition setValue :: "real \<Rightarrow> gauge \<Rightarrow> gauge" where
  "setValue v g =
     (let g' = (if v < min_value g then g\<lparr>value := min_value g\<rparr>
                else if v > max_value g then g\<lparr>value := max_value g\<rparr>
                else g\<lparr>value := v\<rparr>)
      in g'\<lparr>update_requests := update_requests g' + 1\<rparr>)"

text \<open>The demo window's gauge: range 0 to 30, 15 steps.\<close>

definition demo_args :: init_args where
  "demo_args =
     \<lparr> arg_min_value = 0, arg_max_value = 30, arg_value = 0, arg_steps = 15,
       arg_start_angle = - 210, arg_end_angle = 30,
       arg_outer_circle_pen_color = ArgQColor (QColor_rgb 0 150 255),
       arg_outer_circle_brush_color = Some (ArgName ''white''),
       arg_outer_circle_thickness = 20,
       arg_inner_ring_pen_color = ArgQColor (QColor_rgb 0 150 255),
       arg_inner_ring_brush_color = Some (ArgQColor (QColor_rgb 0 150 255)),
       arg_inner_circle_brush_color = Some (ArgName ''white''),
       arg_number_font_size = 14,
       arg_number_font_family = ''Arial'' \<rparr>"

section \<open>Rendering\<close>

text \<open>
  A drawing routine appends its calls to the painter's log and may raise; the
  calls made before the exception stay in the log.
\<close>

type_synonym painter = "painter_op list"
type_synonym draw = "painter \<Rightarrow> py_error option \<times> painter"

definition calls :: "painter_op list \<Rightarrow> draw" where
  "calls ops p = (None, p @ ops)"

fun run :: "draw list \<Rightarrow> draw" where
  "run [] p = (None, p)"
| "run (d # ds) p = (case d p of (Some e, p') \<Rightarrow> (Some e, p') | (None, p') \<Rightarrow> run ds p')"

definition after :: "py_error + 'a \<Rightarrow> ('a \<Rightarrow> draw) \<Rightarrow> draw" where
  \<comment> \<open>continue with a computed value, or raise where its computation raised\<close>
  "after r k p = (case r of Inl e \<Rightarrow> (Some e, p) | Inr x \<Rightarrow> k x p)"

definition for_range :: "int \<Rightarrow> (int \<Rightarrow> draw) \<Rightarrow> draw" where
  \<comment> \<open>\<open>for i in range(n): body\<close>\<close>
  "for_range n body = run (map body (py_range n))"

definition normalize_angle :: "real \<Rightarrow> real" where
  \<comment> \<open>\<open>angle % 360\<close>\<close>
  "normalize_angle a = a - 360 * of_int \<lfloor>a / 360\<rfloor>"

definition outer_arc_path :: "gauge \<Rightarrow> real \<Rightarrow> qpainterpath" where
  "outer_arc_path g radius =
     (let arc_rect = QRectF (- radius) (- radius) (2 * radius) (2 * radius);
          start_angle_normalized = normalize_angle (start_angle g);
          startAngle = - start_angle_normalized;
          spanAngle = - (angle_range g)
      in Path [ArcMoveTo arc_rect startAngle, ArcTo arc_rect startAngle spanAngle])"

definition drawOuterArc :: "gauge \<Rightarrow> real \<Rightarrow> draw" where
  "drawOuterArc g radius =
     calls [SetPen (QPen (outer_circle_pen_color g) (of_int (outer_circle_thickness g))),
            (case outer_circle_brush_color g of
               Some c \<Rightarrow> SetBrush (QBrush c)
             | None \<Rightarrow> SetBrush NoBrush),
            DrawPath (outer_arc_path g radius),
            Restore]"

definition drawOuterArc2 :: "gauge \<Rightarrow> real \<Rightarrow> draw" where
  "drawOuterArc2 g radius =
     calls [SetPen (QPen (QColor_rgba 200 200 200 200) (of_int (outer_circle_thickness g) / 2)),
            SetBrush NoBrush,
            DrawPath (outer_arc_path g radius),
            Restore]"

definition tick_line :: "real \<Rightarrow> real \<Rightarrow> painter_op" where
  \<comment> \<open>the radial segment from \<open>radius - 10\<close> to \<open>radius\<close> at an angle in degrees\<close>
  "tick_line radius angle =
     (let rad = radians angle;
          x1 = (radius - 10) * cos rad;
          y1 = (radius - 10) * sin rad;
          x2 = radius * cos rad;
          y2 = radius * sin rad
      in DrawLine (x1, y1) (x2, y2))"

definition drawTicks :: "gauge \<Rightarrow> real \<Rightarrow> draw" where
  "drawTicks g radius =
     run [calls [Save],
          after (py_truediv (angle_range g) (of_int (steps g))) (\<lambda>angle_step.
            run [for_range (steps g + 1) (\<lambda>i.
                   calls [SetPen (QPen (QColor_global Qt_red) 6),
                          tick_line radius (start_angle g + of_int i * angle_step),
                          Restore]),
                 calls [Restore]])]"

definition number_ops :: "real \<Rightarrow> real \<Rightarrow> string \<Rightarrow> painter_op list" where
  \<comment> \<open>the calls that place one label at an angle in degrees\<close>
  "number_ops radius angle text =
     (let rad = radians angle;
          text_rect = QRectF (- 15) (- 15) 34 34;
          text_x = (radius - 25) * cos rad;
          text_y = (radius - 25) * sin rad
      in [Save, Translate text_x text_y, Rotate (angle + 90),
          DrawText_AlignCenter text_rect text, Restore])"

definition QFont :: "string \<Rightarrow> int \<Rightarrow> py_error + string \<times> int" where
  \<comment> \<open>\<open>QFont(family, pointSize)\<close>: the point size is converted to a 32-bit C int\<close>
  "QFont family pointSize =
     (if - (2 ^ 31) \<le> pointSize \<and> pointSize < 2 ^ 31 then Inr (family, pointSize)
      else Inl OverflowError)"

definition drawNumbers :: "gauge \<Rightarrow> real \<Rightarrow> draw" where
  "drawNumbers g radius =
     run [calls [Save, SetPen (QPen (QColor_rgb 0 150 255) 2)],
          after (py_truediv (angle_range g) (of_int (steps g))) (\<lambda>angle_step.
            after (QFont (number_font_family g) (number_font_size g)) (\<lambda>font.
              run [calls [SetFont (fst font) (snd font)],
                   for_range (steps g + 1) (\<lambda>i.
                     after (py_truediv (of_int i * (max_value g - min_value g)) (of_int (steps g)))
                       (\<lambda>q. calls (number_ops radius (start_angle g + of_int i * angle_step)
                                     (format_0f (min_value g + q))))),
                   calls [Restore]]))]"

definition value_ratio :: "gauge \<Rightarrow> py_error + real" where
  "value_ratio g =
     (let value_range = max_value g - min_value g
      in if value_range = 0 then Inr 0
         else py_truediv (value g - min_value g) value_range)"

definition needle_angle :: "gauge \<Rightarrow> py_error + real" where
  "needle_angle g =
     (case value_ratio g of
        Inl e \<Rightarrow> Inl e
      | Inr r \<Rightarrow> Inr (start_angle g + r * angle_range g))"

definition drawNeedle :: "gauge \<Rightarrow> real \<Rightarrow> draw" where
  "drawNeedle g radius =
     run [calls [Save],
          after (needle_angle g) (\<lambda>angle.
            let needle = [(0, - 5), (radius - 20, 0), (0, 5)];
                shadow_color = QColor_rgba 0 0 0 80;
                ring_path = Path [AddEllipse (0, 0) 12 12];
                ring_inner_path = Path [AddEllipse (0, 0) 5 5];
                ring_shadow_path = Subtracted ring_path ring_inner_path
            in run [calls [Save, Rotate angle, Translate 2 2, SetPen NoPen,
                           SetBrush (QBrush shadow_color), DrawPolygon needle, Restore],
                    calls [Save, Rotate angle, SetPen (QPen (QColor_rgb 0 150 255) 1),
                           SetBrush (QBrush (QColor_rgb 0 150 255)), DrawPolygon needle, Restore],
                    calls [Save, Rotate angle, Translate 2 2, SetPen NoPen,
                           SetBrush (QBrush shadow_color), DrawPath ring_shadow_path, Restore],
                    calls [SetPen (QPen (inner_ring_pen_color g) 1),
                           (case inner_ring_brush_color g of
                              Some c \<Rightarrow> SetBrush (QBrush c)
                            | None \<Rightarrow> SetBrush NoBrush),
                           DrawPath ring_path],
                    (case inner_circle_brush_color g of
                       Some c \<Rightarrow> calls [SetPen NoPen, SetBrush (QBrush c), DrawEllipse (0, 0) 5 5]
                     | None \<Rightarrow> calls []),
                    calls [Restore]])]"

definition paint_radius :: "gauge \<Rightarrow> qrect \<Rightarrow> real" where
  \<comment> \<open>\<open>min(rect.width(), rect.height()) / 2 - self.outer_circle_thickness\<close>\<close>
  "paint_radius g rect =
     of_int (min (width rect) (height rect)) / 2 - of_int (outer_circle_thickness g)"

definition paint_body :: "gauge \<Rightarrow> qrect \<Rightarrow> draw" where
  \<comment> \<open>the statements inside \<open>try\<close>\<close>
  "paint_body g rect =
     (let radius = paint_radius g rect
      in run [calls [SetRenderHint_Antialiasing,
                     Translate (of_int (fst (center rect))) (of_int (snd (center rect)))],
              drawOuterArc g radius,
              drawTicks g radius,
              drawNumbers g radius,
              drawOuterArc2 g radius,
              drawNeedle g radius])"

datatype log_line = Error_in_paintEvent py_error

record frame =
  painted :: "painter_op list"
  printed :: "log_line list"

definition try_except_Exception :: "py_error option \<times> painter \<Rightarrow> py_error + frame" where
  \<comment> \<open>\<open>try: ... except Exception as e: print(...)\<close> applied to the outcome of the
      \<open>try\<close> block; \<open>Inl\<close> is an exception that leaves \<open>paintEvent\<close>\<close>
  "try_except_Exception outcome =
     (case outcome of
        (None, p) \<Rightarrow> Inr \<lparr> painted = p, printed = [] \<rparr>
      | (Some e, p) \<Rightarrow>
          if is_Exception e then Inr \<lparr> painted = p, printed = [Error_in_paintEvent e] \<rparr>
          else Inl e)"

definition paintEvent :: "gauge \<Rightarrow> qrect \<Rightarrow> py_error + frame" where
  \<comment> \<open>the painter is new at each call\<close>
  "paintEvent g rect = try_except_Exception (paint_body g rect [])"

text \<open>
  A fault that the drawing code, as modelled with exact arithmetic, does not raise by
  itself: the toolkit fails in a painter call, the interpreter delivers an exception
  while the render runs, or a float operation raises (\<open>math.cos\<close> of an infinity).
  \<open>Some (k, e)\<close> says that \<open>e\<close> is raised in place of painter call number \<open>k\<close> of the
  render, counted from 0.  The calls before it were made; the first exception ends the
  \<open>try\<close> block, so a render meets at most one.  A render that ends before call \<open>k\<close>
  does not meet it.
\<close>

type_synonym fault = "(nat \<times> py_error) option"

definition interrupted :: "fault \<Rightarrow> py_error option \<times> painter \<Rightarrow> py_error option \<times> painter" where
  "interrupted fault outcome =
     (case fault of
        None \<Rightarrow> outcome
      | Some (k, e) \<Rightarrow>
          if k < length (snd outcome) then (Some e, take k (snd outcome)) else outcome)"

definition paintEvent_under :: "fault \<Rightarrow> gauge \<Rightarrow> qrect \<Rightarrow> py_error + frame" where
  "paintEvent_under fault g rect =
     try_except_Exception (interrupted fault (paint_body g rect []))"

section \<open>The demo gauge\<close>

definition demo_gauge :: gauge where
  "demo_gauge =
     \<lparr> min_value = 0, max_value = 30, value = 0, steps = 15,
       start_angle = - 210, end_angle = 30, angle_range = 240,
       outer_circle_thickness = 20,
       outer_circle_pen_color = QColor_rgb 0 150 255,
       outer_circle_brush_color = Some (QColor_name ''white''),
       inner_ring_pen_color = QColor_rgb 0 150 255,
       inner_ring_brush_color = Some (QColor_rgb 0 150 255),
       inner_circle_brush_color = Some (QColor_name ''white''),
       number_font_size = 14,
       number_font_family = ''Arial'',
       minimum_size = (200, 200),
       update_requests = 0 \<rparr>"

section \<open>Facts about the model\<close>

subsection \<open>Construction and the setter\<close>

lemma demo_init: "CircularGauge_init demo_args = Inr demo_gauge"
  by (simp add: CircularGauge_init_def demo_args_def demo_gauge_def get_color_opt_def)

lemma setValue_in_range:
  "min_value g \<le> max_value g \<Longrightarrow>
     min_value g \<le> value (setValue v g) \<and> value (setValue v g) \<le> max_value g"
  by (simp add: setValue_def Let_def)

subsection \<open>Drawing routines\<close>


lemma after_truediv_zero: "after (py_truediv a 0) k p = (Some ZeroDivisionError, p)"
  by (simp add: after_def py_truediv_def)




lemma drawTicks_zero:
  assumes "steps g = 0"
  shows "drawTicks g radius p = (Some ZeroDivisionError, p @ [Save])"
  using assms by (simp add: drawTicks_def after_truediv_zero calls_def)



lemma value_ratio_Inr:
  "value_ratio g = Inr (if max_value g - min_value g = 0 then 0
                        else (value g - min_value g) / (max_value g - min_value g))"
  by (simp add: value_ratio_def Let_def py_truediv_def)

lemma needle_angle_Inr:
  "needle_angle g = Inr (start_angle g + (if max_value g - min_value g = 0 then 0
                        else (value g - min_value g) / (max_value g - min_value g)) * angle_range g)"
  by (simp add: needle_angle_def value_ratio_Inr)



lemma drawNeedle_ok2: "\<exists>ops. \<forall>p. drawNeedle g radius p = (None, p @ ops)"
  by (cases "inner_circle_brush_color g")
     (simp_all add: drawNeedle_def needle_angle_Inr after_def calls_def Let_def)







lemma paintEvent_under_None: "paintEvent_under None g rect = paintEvent g rect"
  by (simp add: paintEvent_under_def paintEvent_def interrupted_def)

section \<open>Claims\<close>

text \<open>
  C1.  For a gauge with \<open>min_value < max_value\<close> and any input \<open>v\<close>, \<open>setValue v\<close>
  stores \<open>min_value\<close> when \<open>v < min_value\<close>, \<open>max_value\<close> when \<open>v > max_value\<close>, and
  \<open>v\<close> itself when \<open>v\<close> lies in the range.  The setter has no raising branch: it
  returns the updated gauge for every input.
\<close>

theorem setValue_clamps:
  assumes "min_value g < max_value g"
  shows "(v < min_value g \<longrightarrow> value (setValue v g) = min_value g)
       \<and> (v > max_value g \<longrightarrow> value (setValue v g) = max_value g)
       \<and> (min_value g \<le> v \<and> v \<le> max_value g \<longrightarrow> value (setValue v g) = v)"
  using assms by (simp add: setValue_def Let_def)

theorem setValue_clamps_witness:
  "min_value demo_gauge < max_value demo_gauge
   \<and> value (setValue (- 5) demo_gauge) = 0
   \<and> value (setValue 45 demo_gauge) = 30
   \<and> value (setValue 15 demo_gauge) = 15"
  using setValue_clamps[of demo_gauge "- 5"] setValue_clamps[of demo_gauge 45]
    setValue_clamps[of demo_gauge 15]
  by (simp add: demo_gauge_def)

text \<open>
  C2.  The stored value is claimed to lie in \<open>[min_value, max_value]\<close> after every
  assignment, the one at construction included.  The constructor stores its \<open>value\<close>
  argument as given: built with the default range 0 to 100 and \<open>value = 200\<close>, the gauge
  holds 200, above \<open>max_value\<close>.  (The setter does clamp: \<open>setValue_in_range\<close>.)
\<close>

theorem init_stores_value_unclamped:
  "\<exists>g. CircularGauge_init (default_args\<lparr>arg_value := 200\<rparr>) = Inr g
       \<and> min_value g = 0 \<and> max_value g = 100 \<and> value g = 200 \<and> max_value g < value g"
  by (simp add: CircularGauge_init_def default_args_def)

text \<open>
  C4.  Construction raises the configuration error exactly when
  \<open>min_value \<ge> max_value\<close>, and returns a gauge when \<open>min_value < max_value\<close>.
\<close>

theorem init_raises_iff:
  "(arg_min_value a \<ge> arg_max_value a \<longrightarrow>
      CircularGauge_init a = Inl (ValueError ''min_value must be less than max_value''))
   \<and> (arg_min_value a < arg_max_value a \<longrightarrow> (\<exists>g. CircularGauge_init a = Inr g))"
  by (simp add: CircularGauge_init_def)

theorem init_raises_iff_witness:
  "CircularGauge_init (default_args\<lparr>arg_min_value := 100\<rparr>)
      = Inl (ValueError ''min_value must be less than max_value'')
   \<and> CircularGauge_init (default_args\<lparr>arg_min_value := 200\<rparr>)
      = Inl (ValueError ''min_value must be less than max_value'')
   \<and> (\<exists>g. CircularGauge_init default_args = Inr g)"
  using init_raises_iff[of "default_args\<lparr>arg_min_value := 100\<rparr>"]
    init_raises_iff[of "default_args\<lparr>arg_min_value := 200\<rparr>"]
    init_raises_iff[of default_args]
  by (simp add: default_args_def)

text \<open>
  C5.  In the needle computation a zero value range gives ratio 0 (the needle rests at
  \<open>start_angle\<close>); the division is reached only with a non-zero divisor, so the ratio is
  never a division error and \<open>drawNeedle\<close> never raises.
\<close>

theorem value_ratio_guarded:
  "(max_value g - min_value g = 0 \<longrightarrow> value_ratio g = Inr 0 \<and> needle_angle g = Inr (start_angle g))
   \<and> value_ratio g \<noteq> Inl ZeroDivisionError
   \<and> (\<exists>r. value_ratio g = Inr r)
   \<and> fst (drawNeedle g radius p) = None"
proof -
  obtain ops where "\<And>q. drawNeedle g radius q = (None, q @ ops)"
    using drawNeedle_ok2 by blast
  then show ?thesis
    by (simp add: value_ratio_Inr needle_angle_Inr)
qed

theorem value_ratio_guarded_witness:
  "max_value (demo_gauge\<lparr>max_value := 0\<rparr>) - min_value (demo_gauge\<lparr>max_value := 0\<rparr>) = 0
   \<and> value_ratio (demo_gauge\<lparr>max_value := 0\<rparr>) = Inr 0
   \<and> needle_angle (demo_gauge\<lparr>max_value := 0\<rparr>) = Inr (- 210)
   \<and> fst (drawNeedle (demo_gauge\<lparr>max_value := 0\<rparr>) 80 []) = None"
  using value_ratio_guarded[of "demo_gauge\<lparr>max_value := 0\<rparr>" 80 "[]"]
  by (simp add: demo_gauge_def)




text \<open>
  C9.  \<open>setValue\<close> leaves every configuration field as it was: the range, the steps,
  the angles, the colours, the thickness and the font settings.
\<close>

theorem setValue_frame:
  "min_value (setValue v g) = min_value g
   \<and> max_value (setValue v g) = max_value g
   \<and> steps (setValue v g) = steps g
   \<and> start_angle (setValue v g) = start_angle g
   \<and> end_angle (setValue v g) = end_angle g
   \<and> angle_range (setValue v g) = angle_range g
   \<and> outer_circle_pen_color (setValue v g) = outer_circle_pen_color g
   \<and> outer_circle_brush_color (setValue v g) = outer_circle_brush_color g
   \<and> inner_ring_pen_color (setValue v g) = inner_ring_pen_color g
   \<and> inner_ring_brush_color (setValue v g) = inner_ring_brush_color g
   \<and> inner_circle_brush_color (setValue v g) = inner_circle_brush_color g
   \<and> outer_circle_thickness (setValue v g) = outer_circle_thickness g
   \<and> number_font_size (setValue v g) = number_font_size g
   \<and> number_font_family (setValue v g) = number_font_family g"
  by (simp add: setValue_def Let_def)

text \<open>
  C10.  Construction does not look at \<open>steps\<close>: with \<open>min_value < max_value\<close> it returns
  a gauge holding the given \<open>steps\<close>, whatever integer that is; with \<open>steps = 0\<close> the
  later \<open>drawTicks\<close> raises the division by zero.
\<close>

theorem init_accepts_any_steps:
  assumes "arg_min_value a < arg_max_value a"
  shows "\<exists>g. CircularGauge_init a = Inr g \<and> steps g = arg_steps a
     \<and> (arg_steps a = 0 \<longrightarrow> fst (drawTicks g radius p) = Some ZeroDivisionError)"
  using assms by (simp add: CircularGauge_init_def drawTicks_zero)

theorem init_accepts_any_steps_witness:
  "arg_min_value (default_args\<lparr>arg_steps := 0\<rparr>) < arg_max_value (default_args\<lparr>arg_steps := 0\<rparr>)
   \<and> (\<exists>g. CircularGauge_init (default_args\<lparr>arg_steps := 0\<rparr>) = Inr g \<and> steps g = 0
         \<and> fst (drawTicks g 88 []) = Some ZeroDivisionError)
   \<and> (\<exists>g. CircularGauge_init (default_args\<lparr>arg_steps := - 3\<rparr>) = Inr g \<and> steps g = - 3)"
  using init_accepts_any_steps[of "default_args\<lparr>arg_steps := 0\<rparr>" 88 "[]"]
    init_accepts_any_steps[of "default_args\<lparr>arg_steps := - 3\<rparr>" 88 "[]"]
  by (simp add: default_args_def)

end
